theory Spec2Isabelle
  imports Main "HOL-Library.AList"
begin

section \<open>Data model\<close>

text \<open>
  A row of the listing frame \<open>df_list\<close> (columns \<open>code\<close>, \<open>name\<close>, \<open>board\<close>) and a row
  of the manifest frame \<open>mf\<close>, which has the additional column \<open>status\<close>. The column
  \<open>code\<close> holds the value of \<open>astype(str)\<close>, the form in which the source compares codes.
  A frame is the list of its rows; the index label of a row is its position (the frames
  come from \<open>read_csv\<close>, from \<open>concat(ignore_index=True)\<close> or from \<open>drop_duplicates\<close>, so
  labels are unique, and \<open>iterrows\<close> and \<open>.at\<close> address a row by its label).
\<close>

record target =
  code :: string
  name :: string
  board :: string

record entry = target +
  status :: string

definition with_status :: "target \<Rightarrow> string \<Rightarrow> entry" where
  "with_status t s = \<lparr>code = code t, name = name t, board = board t, status = s\<rparr>"

text \<open>An exception object, an instance of \<open>Exception\<close>, with its message.\<close>

datatype exn = Exn string

text \<open>
  What a call or a \<open>raise\<close> can raise: an instance of \<open>Exception\<close>, or an exception of
  a class that derives from \<open>BaseException\<close> only. \<open>GeneratorExit\<close> and any other such
  class are handled by this code as \<open>SystemExit\<close> is. The clause \<open>except Exception\<close>
  catches the instances of \<open>Exception\<close>, a bare \<open>except\<close> catches everything.
\<close>

datatype base_exn = Exception exn | KeyboardInterrupt | SystemExit

fun isinstance_Exception :: "base_exn \<Rightarrow> bool" where
  "isinstance_Exception (Exception e) = True"
| "isinstance_Exception KeyboardInterrupt = False"
| "isinstance_Exception SystemExit = False"

definition bare_except :: "base_exn \<Rightarrow> bool" where
  "bare_except e = True"

text \<open>
  What one call of \<open>tk.history(...)\<close> followed by the processing and the \<open>to_csv\<close> of the
  same \<open>try\<close> block does: it raises, it yields \<open>None\<close> or an empty frame, or it yields
  rows that are written as a file of the given size in bytes.
\<close>

datatype fetch_result = Raises base_exn | NoData | Frame nat

section \<open>downloader\_jp.py\<close>

text \<open>
  The files the module reads and writes: \<open>MANIFEST_CSV\<close>, \<open>LIST_ALL_CSV\<close> (\<open>None\<close>
  when the file does not exist) and the names listed in \<open>DATA_DIR\<close>.
\<close>

record jp_files =
  manifest_csv :: "entry list option"
  list_all_csv :: "target list option"
  data_dir :: "string list"

definition endswith :: "string \<Rightarrow> string \<Rightarrow> bool" where
  "endswith s suf = (length suf \<le> length s \<and> drop (length s - length suf) s = suf)"

text \<open>\<open>f.split(".")[0]\<close>: the part of \<open>f\<close> before its first dot.\<close>

definition split_dot_0 :: "string \<Rightarrow> string" where
  "split_dot_0 f = takeWhile (\<lambda>c. c \<noteq> CHR ''.'') f"

definition existing_files :: "string list \<Rightarrow> string list" where
  "existing_files listing = map split_dot_0 (filter (\<lambda>f. endswith f ''.T.csv'') listing)"

text \<open>
  Lines 84 to 89 of \<open>build_manifest\<close>: the rows of \<open>df_list\<close> whose code is not in the
  manifest are appended with status \<open>pending\<close>.
\<close>

definition new_codes :: "entry list \<Rightarrow> target list \<Rightarrow> target list" where
  "new_codes mf df_list = filter (\<lambda>t. code t \<notin> set (map code mf)) df_list"

definition merge_new_codes :: "entry list \<Rightarrow> target list \<Rightarrow> entry list" where
  "merge_new_codes mf df_list =
     (if new_codes mf df_list \<noteq> []
      then mf @ map (\<lambda>t. with_status t ''pending'') (new_codes mf df_list)
      else mf)"

definition build_manifest :: "jp_files \<Rightarrow> target list \<Rightarrow> jp_files \<times> entry list" where
  "build_manifest fs df_list =
     (if df_list = [] then (fs, [])
      else case manifest_csv fs of
        Some mf \<Rightarrow> (fs, merge_new_codes mf df_list)
      | None \<Rightarrow>
          (let mf = map (\<lambda>t. with_status t
                      (if code t \<in> set (existing_files (data_dir fs)) then ''done''
                       else ''pending'')) df_list
           in (fs\<lparr>manifest_csv := Some mf\<rparr>, mf)))"

text \<open>
  \<open>get_tse_list\<close>. The listing read from \<open>tse.csv_file_path\<close> is given by whether one
  of the candidate code columns and one of the candidate name columns is present, and by
  \<open>str(...)\<close> of the code cell and the name cell of each row. Characters are bytes, so
  \<open>isspace\<close>, \<open>isdigit\<close> and \<open>isalnum\<close> are those of ASCII. When no row has a
  valid code the frame is empty; whether pandas then returns it from \<open>drop_duplicates\<close>
  or raises \<open>KeyError\<close> there, the function returns the cached listing if the file
  exists and an empty frame otherwise, which is what both paths below give.
\<close>

record tse_frame =
  code_col :: bool
  name_col :: bool
  cells :: "(string \<times> string) list"

definition isspace :: "char \<Rightarrow> bool" where
  "isspace c = (let n = (of_char c :: nat) in (9 \<le> n \<and> n \<le> 13) \<or> (28 \<le> n \<and> n \<le> 32))"

definition isdigit_char :: "char \<Rightarrow> bool" where
  "isdigit_char c = (let n = (of_char c :: nat) in 48 \<le> n \<and> n \<le> 57)"

definition isalnum :: "char \<Rightarrow> bool" where
  "isalnum c = (let n = (of_char c :: nat) in
     (48 \<le> n \<and> n \<le> 57) \<or> (65 \<le> n \<and> n \<le> 90) \<or> (97 \<le> n \<and> n \<le> 122))"

definition isdigit :: "string \<Rightarrow> bool" where
  "isdigit s = (s \<noteq> [] \<and> list_all isdigit_char s)"

definition strip :: "string \<Rightarrow> string" where
  "strip s = rev (dropWhile isspace (rev (dropWhile isspace s)))"

definition threshold_jp :: nat where
  "threshold_jp = 3800"

definition tse_res :: "tse_frame \<Rightarrow> target list" where
  "tse_res df = concat (map (\<lambda>(c, n).
       (let cd = strip c in
        if 4 \<le> length cd \<and> isdigit (take 4 cd)
        then [\<lparr>code = take 4 cd,
               name = (if name_col df then n else take 4 cd),
               board = ''T''\<rparr>]
        else [])) (cells df))"

text \<open>\<open>drop_duplicates(subset=['code'])\<close> keeps the first row of every code.\<close>

fun drop_duplicates :: "string list \<Rightarrow> target list \<Rightarrow> target list" where
  "drop_duplicates seen [] = []"
| "drop_duplicates seen (t # ts) =
     (if code t \<in> set seen then drop_duplicates seen ts
      else t # drop_duplicates (code t # seen) ts)"

text \<open>
  The \<open>except\<close> clause of \<open>get_tse_list\<close>: the cached listing if the file exists, else
  an empty frame.
\<close>

definition tse_except :: "jp_files \<Rightarrow> jp_files \<times> target list" where
  "tse_except fs = (fs, case list_all_csv fs of Some cached \<Rightarrow> cached | None \<Rightarrow> [])"

definition get_tse_list :: "jp_files \<Rightarrow> exn + tse_frame \<Rightarrow> jp_files \<times> target list" where
  "get_tse_list fs src =
     (case src of
        Inl e \<Rightarrow> tse_except fs
      | Inr df \<Rightarrow>
          if \<not> code_col df then tse_except fs
          else
            (let final_df = drop_duplicates [] (tse_res df) in
             if length final_df < threshold_jp then
               (case list_all_csv fs of
                  Some cached \<Rightarrow> (fs, cached)
                | None \<Rightarrow> (fs, final_df))
             else (fs\<lparr>list_all_csv := Some final_df\<rparr>, final_df)))"

text \<open>
  A \<open>try\<close> statement: the body has run to a state and either raised (\<open>Inl\<close>) or
  produced a value; the handler receives the state the body left behind and runs for
  the exceptions its clause catches, the others propagate.
\<close>

definition try_except ::
  "'s \<times> (base_exn + 'a) \<Rightarrow> (base_exn \<Rightarrow> bool) \<Rightarrow>
   ('s \<Rightarrow> base_exn \<Rightarrow> 's \<times> (base_exn + 'a)) \<Rightarrow> 's \<times> (base_exn + 'a)" where
  "try_except body catches handler =
     (case body of
        (s, Inl e) \<Rightarrow> if catches e then handler s e else (s, Inl e)
      | (s, Inr v) \<Rightarrow> (s, Inr v))"

text \<open>
  \<open>download_one\<close> of the Japanese module. The state is the listing of \<open>DATA_DIR\<close> and
  the number of calls of \<open>tk.history\<close> made so far; \<open>fetch k\<close> is what call number \<open>k\<close>
  for this symbol does. The value \<open>Some st\<close> of one pass of the loop is \<open>return idx, st\<close>,
  the value \<open>None\<close> is the fall through to the next pass. The sleeps are left out.
\<close>

definition max_retries :: nat where
  "max_retries = 3"

definition zfill :: "nat \<Rightarrow> string \<Rightarrow> string" where
  "zfill w s =
     (if w \<le> length s then s
      else case s of
        [] \<Rightarrow> replicate w (CHR ''0'')
      | c # cs \<Rightarrow>
          if c = CHR ''+'' \<or> c = CHR ''-''
          then c # replicate (w - length s) (CHR ''0'') @ cs
          else replicate (w - length s) (CHR ''0'') @ s)"

type_synonym jp_world = "string list \<times> nat"

definition jp_try_block ::
  "(nat \<Rightarrow> fetch_result) \<Rightarrow> string \<Rightarrow> nat \<Rightarrow> jp_world \<Rightarrow> jp_world \<times> (base_exn + string option)" where
  "jp_try_block fetch out_path attempt w =
     (case w of (dir, calls) \<Rightarrow>
        (case fetch calls of
           Raises e \<Rightarrow> ((dir, Suc calls), Inl e)
         | Frame sz \<Rightarrow> ((List.insert out_path dir, Suc calls), Inr (Some ''done''))
         | NoData \<Rightarrow>
             ((dir, Suc calls),
              Inr (if attempt = max_retries - 1 then Some ''empty'' else None))))"

fun jp_attempts ::
  "(nat \<Rightarrow> fetch_result) \<Rightarrow> string \<Rightarrow> jp_world \<Rightarrow> nat list \<Rightarrow> jp_world \<times> (base_exn + string)" where
  "jp_attempts fetch out_path w [] = (w, Inr ''failed'')"
| "jp_attempts fetch out_path w (attempt # rest) =
     (case try_except (jp_try_block fetch out_path attempt w) isinstance_Exception
             (\<lambda>w' e. (w', Inr (if attempt = max_retries - 1 then Some ''failed'' else None))) of
        (w', Inl e) \<Rightarrow> (w', Inl e)
      | (w', Inr (Some st)) \<Rightarrow> (w', Inr st)
      | (w', Inr None) \<Rightarrow> jp_attempts fetch out_path w' rest)"

definition jp_download_one ::
  "(nat \<Rightarrow> fetch_result) \<Rightarrow> string list \<Rightarrow> nat \<times> entry \<Rightarrow> jp_world \<times> (base_exn + nat \<times> string)" where
  "jp_download_one fetch dir row_tuple =
     (case row_tuple of (idx, row) \<Rightarrow>
        (let cd = zfill 4 (code row);
             out_path = cd @ ''.T.csv''
         in case jp_attempts fetch out_path (dir, 0) [0..<max_retries] of
              (w, Inl e) \<Rightarrow> (w, Inl e)
            | (w, Inr st) \<Rightarrow> (w, Inr (idx, st))))"

text \<open>
  \<open>main\<close> of the Japanese module. Line 151 selects the rows to process; \<open>.at[idx,
  "status"] = status\<close> sets the status of the row labelled \<open>idx\<close>, and for a label the
  frame does not have pandas appends a row whose other columns are \<open>NaN\<close> (never the
  case in \<open>main\<close>, where every \<open>idx\<close> comes from \<open>todo.iterrows()\<close>).
\<close>

definition todo_rows :: "entry list \<Rightarrow> (nat \<times> entry) list" where
  "todo_rows mf =
     filter (\<lambda>(idx, row). status row \<notin> set [''done'', ''empty'']) (enumerate 0 mf)"

definition set_status :: "entry list \<Rightarrow> nat \<Rightarrow> string \<Rightarrow> entry list" where
  "set_status mf idx st =
     (if idx < length mf then mf[idx := (mf ! idx)\<lparr>status := st\<rparr>]
      else mf @ [\<lparr>code = ''nan'', name = ''nan'', board = ''nan'', status = st\<rparr>])"

text \<open>
  The futures of the pool, one per row of \<open>todo\<close>: every one runs to its end (leaving
  the \<open>with\<close> block waits for them), \<open>provider idx\<close> being what the provider does for the
  row labelled \<open>idx\<close>.
\<close>

fun run_futures ::
  "(nat \<Rightarrow> nat \<Rightarrow> fetch_result) \<Rightarrow> jp_world \<Rightarrow> (nat \<times> entry) list \<Rightarrow>
   jp_world \<times> (base_exn + nat \<times> string) list" where
  "run_futures provider w [] = (w, [])"
| "run_futures provider w (item # items) =
     (case w of (dir, calls) \<Rightarrow>
        (case jp_download_one (provider (fst item)) dir item of
           ((dir', n), r) \<Rightarrow>
             (case run_futures provider (dir', calls + n) items of
                (w', rs) \<Rightarrow> (w', r # rs))))"

text \<open>
  The loop over \<open>as_completed(futures)\<close>, lines 160 to 166: \<open>f.result()\<close> raises again
  what the future raised, which ends the loop; every 100 results the manifest is
  written. In \<open>main\<close> the clause \<open>except KeyboardInterrupt\<close> around the loop catches that
  exception, any other one leaves \<open>main\<close> after the \<open>finally\<close> clause has written the
  manifest.
\<close>

fun record_results ::
  "jp_files \<Rightarrow> entry list \<Rightarrow> nat \<Rightarrow> (base_exn + nat \<times> string) list \<Rightarrow>
   jp_files \<times> entry list \<times> base_exn option" where
  "record_results fs mf count [] = (fs, mf, None)"
| "record_results fs mf count (Inl e # rest) = (fs, mf, Some e)"
| "record_results fs mf count (Inr (idx, st) # rest) =
     (let mf' = set_status mf idx st;
          count' = Suc count;
          fs' = (if count' mod 100 = 0 then fs\<lparr>manifest_csv := Some mf'\<rparr> else fs)
      in record_results fs' mf' count' rest)"

record download_stats =
  total_expected :: nat
  effective_success :: nat
  fail_count :: nat

text \<open>
  \<open>completed\<close> gives the results the loop receives, in the order of completion: all of
  them in some order or, when \<open>KeyboardInterrupt\<close> ends the loop, those received until
  then. The result pairs the files and the number of provider calls of the run with
  what \<open>main\<close> returns (\<open>None\<close> for the bare \<open>return\<close> of line 147) or raises.
\<close>

definition jp_main ::
  "jp_files \<Rightarrow> exn + tse_frame \<Rightarrow> (nat \<Rightarrow> nat \<Rightarrow> fetch_result) \<Rightarrow>
   ((base_exn + nat \<times> string) list \<Rightarrow> (base_exn + nat \<times> string) list) \<Rightarrow>
   (jp_files \<times> nat) \<times> (base_exn + download_stats option)" where
  "jp_main fs0 src provider completed =
     (case get_tse_list fs0 src of (fs1, df_list) \<Rightarrow>
        if df_list = [] then ((fs1, 0), Inr None)
        else
          (case build_manifest fs1 df_list of (fs2, mf0) \<Rightarrow>
             (let todo = todo_rows mf0;
                  ((dir, calls), results) =
                     (if todo \<noteq> [] then run_futures provider (data_dir fs2, 0) todo
                      else ((data_dir fs2, 0), []));
                  (fs3, mf, raised) =
                     (if todo \<noteq> []
                      then (case record_results fs2 mf0 0 (completed results) of
                              (fs', mf', r) \<Rightarrow>
                                (fs'\<lparr>manifest_csv := Some mf'\<rparr>, mf',
                                 if r = Some KeyboardInterrupt then None else r))
                      else (fs2, mf0, None));
                  fs4 = fs3\<lparr>data_dir := dir\<rparr>
              in case raised of
                   Some e \<Rightarrow> ((fs4, calls), Inl e)
                 | None \<Rightarrow>
                     (let total = length mf;
                          succ = length (filter (\<lambda>r. status r = ''done'') mf)
                      in if total = 0 then ((fs4, calls), Inl (Exception (Exn ''ZeroDivisionError'')))
                         else ((fs4, calls),
                               Inr (Some \<lparr>total_expected = total, effective_success = succ,
                                          fail_count = total - succ\<rparr>))))))"

section \<open>downloader\_us.py\<close>

text \<open>
  A file of a data directory with the date of its last modification (as a day number)
  and its size in bytes; a directory maps paths to files. The cache file of a listing
  holds the date of its last modification and the list that \<open>json.load\<close> reads back.
\<close>

record file_meta =
  getmtime :: nat
  getsize :: nat

type_synonym files = "(string \<times> file_meta) list"

record list_cache =
  cache_mtime :: nat
  cache_items :: "string list"

definition write_file :: "string \<Rightarrow> nat \<Rightarrow> nat \<Rightarrow> files \<Rightarrow> files" where
  "write_file path today sz fs = AList.update path \<lparr>getmtime = today, getsize = sz\<rparr> fs"

definition upper_char :: "char \<Rightarrow> char" where
  "upper_char c = (let n = (of_char c :: nat) in
     if 97 \<le> n \<and> n \<le> 122 then char_of (n - 32) else c)"

fun is_substring :: "string \<Rightarrow> string \<Rightarrow> bool" where
  "is_substring kw [] = (kw = [])"
| "is_substring kw (c # cs) = (take (length kw) (c # cs) = kw \<or> is_substring kw cs)"

definition exclude_keywords :: "string list" where
  "exclude_keywords = [''WARRANT'', ''RIGHTS'', ''UNIT'', ''PREFERRED'', ''DEPOSITARY'',
     ''ADR'', ''FOREIGN'', ''DEBENTURE'']"

definition classify_security :: "string \<Rightarrow> bool \<Rightarrow> string" where
  "classify_security nm is_etf =
     (if is_etf then ''Exclude''
      else if list_ex (\<lambda>kw. is_substring kw (map upper_char nm)) exclude_keywords
      then ''Exclude''
      else ''Common Stock'')"

text \<open>
  A row of a symbol directory file: the columns \<open>Test Issue\<close>, the symbol column of
  the site, \<open>Security Name\<close> and \<open>ETF\<close>. A site answers with its rows or the request or
  the parsing raises, which the loop logs and passes over.
\<close>

record us_row =
  test_issue :: string
  symbol :: string
  security_name :: string
  etf :: string

definition site_rows :: "exn + us_row list \<Rightarrow> string list" where
  "site_rows site =
     (case site of
        Inl e \<Rightarrow> []
      | Inr df \<Rightarrow>
          map (\<lambda>row. map (\<lambda>c. if c = CHR ''$'' then CHR ''-'' else c) (strip (symbol row))
                      @ ''&'' @ strip (security_name row))
            (filter (\<lambda>row. classify_security (security_name row) (etf row = ''Y'')
                             = ''Common Stock'')
               (filter (\<lambda>row. test_issue row = ''N'') df)))"

definition threshold_us :: nat where
  "threshold_us = 3000"

text \<open>
  \<open>get_full_stock_list\<close>. \<open>list(set(all_rows))\<close> holds every row once, in an order
  Python does not fix; \<open>remdups\<close> is one such order.
\<close>

definition get_full_stock_list ::
  "list_cache option \<Rightarrow> nat \<Rightarrow> exn + us_row list \<Rightarrow> exn + us_row list \<Rightarrow>
   list_cache option \<times> string list" where
  "get_full_stock_list cache today nasdaqlisted otherlisted =
     (case (case cache of
              Some c \<Rightarrow>
                if cache_mtime c = today \<and> threshold_us \<le> length (cache_items c)
                then Some (cache_items c) else None
            | None \<Rightarrow> None) of
        Some data \<Rightarrow> (cache, data)
      | None \<Rightarrow>
          (let all_rows = site_rows nasdaqlisted @ site_rows otherlisted;
               final_list = remdups all_rows
           in if threshold_us \<le> length final_list
              then (Some \<lparr>cache_mtime = today, cache_items = final_list\<rparr>, final_list)
              else (case cache of
                      Some c \<Rightarrow> (cache, cache_items c)
                    | None \<Rightarrow> (cache, final_list))))"

text \<open>
  \<open>item.split('&', 1)\<close> unpacked into two names: without an ampersand the unpacking
  raises \<open>ValueError\<close>. \<open>item.split('&')[0]\<close> is the part before the first ampersand.
\<close>

definition split_amp :: "string \<Rightarrow> (string \<times> string) option" where
  "split_amp item =
     (if CHR ''&'' \<in> set item
      then Some (takeWhile (\<lambda>c. c \<noteq> CHR ''&'') item, tl (dropWhile (\<lambda>c. c \<noteq> CHR ''&'') item))
      else None)"

definition split_amp_0 :: "string \<Rightarrow> string" where
  "split_amp_0 item = takeWhile (\<lambda>c. c \<noteq> CHR ''&'') item"

text \<open>
  \<open>download_stock_data\<close>. The state is the data directory and the number of calls of
  \<open>tk.history\<close>; the result is the dictionary returned, its \<open>status\<close> and its \<open>tkr\<close>
  (absent in the dictionary of the outer \<open>except\<close>).
\<close>

type_synonym world = "files \<times> nat"

definition us_exists_big :: "files \<Rightarrow> string \<Rightarrow> bool" where
  "us_exists_big fs out_path =
     (case map_of fs out_path of None \<Rightarrow> False | Some f \<Rightarrow> 1000 < getsize f)"

definition us_try_block ::
  "(nat \<Rightarrow> fetch_result) \<Rightarrow> nat \<Rightarrow> string \<Rightarrow> world \<Rightarrow> world \<times> (base_exn + string option)" where
  "us_try_block fetch today out_path w =
     (case w of (fs, calls) \<Rightarrow>
        (case fetch calls of
           Raises e \<Rightarrow> ((fs, Suc calls), Inl e)
         | Frame sz \<Rightarrow> ((write_file out_path today sz fs, Suc calls), Inr (Some ''success''))
         | NoData \<Rightarrow> ((fs, Suc calls), Inr None)))"

fun us_attempts ::
  "(nat \<Rightarrow> fetch_result) \<Rightarrow> nat \<Rightarrow> string \<Rightarrow> string \<Rightarrow> world \<Rightarrow> nat list \<Rightarrow>
   world \<times> (base_exn + string \<times> string option)" where
  "us_attempts fetch today out_path yf_tkr w [] = (w, Inr (''empty'', Some yf_tkr))"
| "us_attempts fetch today out_path yf_tkr w (attempt # rest) =
     (case try_except (us_try_block fetch today out_path w) isinstance_Exception
             (\<lambda>w' e. (w', Inr None)) of
        (w', Inl e) \<Rightarrow> (w', Inl e)
      | (w', Inr (Some st)) \<Rightarrow> (w', Inr (st, Some yf_tkr))
      | (w', Inr None) \<Rightarrow> us_attempts fetch today out_path yf_tkr w' rest)"

definition us_out_path :: "string \<Rightarrow> string \<Rightarrow> string" where
  "us_out_path yf_tkr nm =
     yf_tkr @ ''_'' @
     strip (filter (\<lambda>c. isalnum c \<or> c \<in> set [CHR '' '', CHR ''_'', CHR ''-'']) nm) @ ''.csv''"

definition download_stock_data ::
  "(nat \<Rightarrow> fetch_result) \<Rightarrow> nat \<Rightarrow> files \<Rightarrow> string \<Rightarrow>
   world \<times> (base_exn + string \<times> string option)" where
  "download_stock_data fetch today fs item =
     try_except
       (case split_amp item of
          None \<Rightarrow> ((fs, 0), Inl (Exception (Exn ''ValueError'')))
        | Some (yf_tkr, nm) \<Rightarrow>
            (let out_path = us_out_path yf_tkr nm
             in if us_exists_big fs out_path then ((fs, 0), Inr (''exists'', Some yf_tkr))
                else us_attempts fetch today out_path yf_tkr (fs, 0) [0..<2]))
       bare_except
       (\<lambda>w e. (w, Inr (''error'', None)))"

section \<open>downloader\_cn.py\<close>

definition startswith :: "string \<Rightarrow> string \<Rightarrow> bool" where
  "startswith s p = (take (length p) s = p)"

definition valid_prefixes :: "string list" where
  "valid_prefixes = [''00'', ''30'', ''60'', ''68'']"

text \<open>The two entries of the last resort, their names in UTF-8.\<close>

definition hard_coded_list :: "string list" where
  "hard_coded_list =
     [''600519&'' @ [CHR 0xE8, CHR 0xB2, CHR 0xB4, CHR 0xE5, CHR 0xB7, CHR 0x9E,
                     CHR 0xE8, CHR 0x8C, CHR 0x85, CHR 0xE5, CHR 0x8F, CHR 0xB0],
      ''000001&'' @ [CHR 0xE5, CHR 0xB9, CHR 0xB3, CHR 0xE5, CHR 0xAE, CHR 0x89,
                     CHR 0xE9, CHR 0x8A, CHR 0x80, CHR 0xE8, CHR 0xA1, CHR 0x8C]]"

text \<open>
  \<open>get_cn_list\<close>. Each interface of akshare answers with rows of code and name or
  raises (also when the import of the package fails, which leaves \<open>ak\<close> unbound).
\<close>

definition cn_backup :: "exn + (string \<times> string) list \<Rightarrow> string list" where
  "cn_backup stock_info =
     (case stock_info of
        Inr df_bak \<Rightarrow> map (\<lambda>(c, n). c @ ''&'' @ n) df_bak
      | Inl e \<Rightarrow> hard_coded_list)"

definition get_cn_list ::
  "list_cache option \<Rightarrow> nat \<Rightarrow> exn + (string \<times> string) list \<Rightarrow>
   exn + (string \<times> string) list \<Rightarrow> list_cache option \<times> string list" where
  "get_cn_list cache today spot_em stock_info =
     (case (case cache of
              Some c \<Rightarrow> if cache_mtime c = today then Some (cache_items c) else None
            | None \<Rightarrow> None) of
        Some data \<Rightarrow> (cache, data)
      | None \<Rightarrow>
          (case spot_em of
             Inl e \<Rightarrow> (cache, cn_backup stock_info)
           | Inr df \<Rightarrow>
               (let res = map (\<lambda>(c, n). c @ ''&'' @ n)
                            (filter (\<lambda>(c, n). list_ex (startswith c) valid_prefixes) df)
                in if 1000 < length res
                   then (Some \<lparr>cache_mtime = today, cache_items = res\<rparr>, res)
                   else (cache, cn_backup stock_info))))"

text \<open>
  \<open>download_one\<close> of the Chinese module; the result is the \<open>status\<close> and the \<open>code\<close> of
  the dictionary returned.
\<close>

definition cn_is_fresh :: "files \<Rightarrow> nat \<Rightarrow> string \<Rightarrow> bool" where
  "cn_is_fresh fs today out_path =
     (case map_of fs out_path of
        None \<Rightarrow> False
      | Some f \<Rightarrow> if getmtime f = today \<and> 1000 < getsize f then True else False)"

definition cn_download_one ::
  "(nat \<Rightarrow> fetch_result) \<Rightarrow> nat \<Rightarrow> files \<Rightarrow> string \<Rightarrow> world \<times> (base_exn + string \<times> string)" where
  "cn_download_one fetch today fs item =
     try_except
       (case split_amp item of
          None \<Rightarrow> ((fs, 0), Inl (Exception (Exn ''ValueError'')))
        | Some (cd, nm) \<Rightarrow>
            (let out_path = cd @ ''_'' @ nm @ ''.csv''
             in if cn_is_fresh fs today out_path then ((fs, 0), Inr (''exists'', cd))
                else (case fetch 0 of
                        Raises e \<Rightarrow> ((fs, 1), Inl e)
                      | Frame sz \<Rightarrow> ((write_file out_path today sz fs, 1), Inr (''success'', cd))
                      | NoData \<Rightarrow> ((fs, 1), Inr (''empty'', cd)))))
       bare_except
       (\<lambda>w e. (w, Inr (''error'', split_amp_0 item)))"


section \<open>Statuses and the manifests a run can hold\<close>

definition status_domain :: "string set" where
  "status_domain = {''pending'', ''done'', ''empty'', ''failed''}"

text \<open>
  The manifests the Japanese module can hold: the one \<open>build_manifest\<close> constructs when
  no manifest file exists, the one it returns when it merges a listing into a manifest
  that was reached and written before, and the one \<open>main\<close> obtains by recording what
  \<open>download_one\<close> returned for a row.
\<close>

inductive manifest_reachable :: "entry list \<Rightarrow> bool" where
  constructed:
    "manifest_csv fs = None \<Longrightarrow> manifest_reachable (snd (build_manifest fs df_list))"
| merged:
    "manifest_reachable mf \<Longrightarrow> manifest_csv fs = Some mf \<Longrightarrow>
     manifest_reachable (snd (build_manifest fs df_list))"
| recorded:
    "manifest_reachable mf \<Longrightarrow> snd (jp_download_one fetch dir row_tuple) = Inr (idx, st) \<Longrightarrow>
     manifest_reachable (set_status mf idx st)"

code_pred manifest_reachable .

text \<open>
  Providers used in the examples: one that raises an instance of \<open>Exception\<close> at every
  call, one that raises \<open>SystemExit\<close> at every call, one that answers.
\<close>

definition always_raises :: "nat \<Rightarrow> fetch_result" where
  "always_raises k = Raises (Exception (Exn ''timeout''))"

definition always_exits :: "nat \<Rightarrow> fetch_result" where
  "always_exits k = Raises SystemExit"

definition always_answers :: "nat \<Rightarrow> fetch_result" where
  "always_answers k = Frame 5000"

section \<open>Merging a listing into the manifest\<close>

lemma merge_new_codes_append:
  "merge_new_codes mf df_list = mf @ map (\<lambda>t. with_status t ''pending'') (new_codes mf df_list)"
  by (simp add: merge_new_codes_def)

lemma merge_new_codes_covers:
  assumes "t \<in> set df_list"
  shows "code t \<in> set (map code (merge_new_codes mf df_list))"
proof (cases "code t \<in> set (map code mf)")
  case True
  then show ?thesis by (auto simp: merge_new_codes_append)
next
  case False
  with assms have "t \<in> set (new_codes mf df_list)" by (simp add: new_codes_def)
  then have "with_status t ''pending'' \<in> set (merge_new_codes mf df_list)"
    by (simp add: merge_new_codes_append)
  then have "code (with_status t ''pending'') \<in> set (map code (merge_new_codes mf df_list))"
    by (metis imageI set_map)
  then show ?thesis by (simp add: with_status_def)
qed

lemma new_codes_after_merge: "new_codes (merge_new_codes mf df_list) df_list = []"
  unfolding new_codes_def [of "merge_new_codes mf df_list"] filter_empty_conv
  using merge_new_codes_covers by blast

text \<open>
  C1. Merging a listing into an existing manifest keeps the existing rows as they are,
  appends a row with status \<open>pending\<close> for every listed target whose code the manifest
  does not hold, so that afterwards every listed code is present; merging the same
  listing again returns the manifest unchanged. \<open>build_manifest\<close> performs exactly this
  merge when a manifest file exists and the listing is not empty.
\<close>

theorem merge_idempotent:
  "take (length mf) (merge_new_codes mf df_list) = mf \<and>
   (\<forall>r \<in> set (drop (length mf) (merge_new_codes mf df_list)).
      status r = ''pending'' \<and> code r \<notin> set (map code mf) \<and> code r \<in> set (map code df_list)) \<and>
   (\<forall>t \<in> set df_list. code t \<in> set (map code (merge_new_codes mf df_list))) \<and>
   merge_new_codes (merge_new_codes mf df_list) df_list = merge_new_codes mf df_list \<and>
   (manifest_csv fs = Some mf \<and> df_list \<noteq> [] \<longrightarrow>
      build_manifest fs df_list = (fs, merge_new_codes mf df_list))"
proof (intro conjI)
  show "take (length mf) (merge_new_codes mf df_list) = mf"
    by (simp add: merge_new_codes_append)
  show "\<forall>r \<in> set (drop (length mf) (merge_new_codes mf df_list)).
      status r = ''pending'' \<and> code r \<notin> set (map code mf) \<and> code r \<in> set (map code df_list)"
    by (auto simp: merge_new_codes_append new_codes_def with_status_def)
  show "\<forall>t \<in> set df_list. code t \<in> set (map code (merge_new_codes mf df_list))"
    using merge_new_codes_covers by blast
  show "merge_new_codes (merge_new_codes mf df_list) df_list = merge_new_codes mf df_list"
    using new_codes_after_merge [of mf df_list]
    by (simp add: merge_new_codes_def [of "merge_new_codes mf df_list"])
  show "manifest_csv fs = Some mf \<and> df_list \<noteq> [] \<longrightarrow>
      build_manifest fs df_list = (fs, merge_new_codes mf df_list)"
    by (simp add: build_manifest_def)
qed

theorem merge_idempotent_witness:
  "build_manifest
     \<lparr>manifest_csv = Some [\<lparr>code = ''1301'', name = ''A'', board = ''T'', status = ''done''\<rparr>],
      list_all_csv = None, data_dir = []\<rparr>
     [\<lparr>code = ''1301'', name = ''A'', board = ''T''\<rparr>, \<lparr>code = ''1332'', name = ''B'', board = ''T''\<rparr>]
   = (\<lparr>manifest_csv = Some [\<lparr>code = ''1301'', name = ''A'', board = ''T'', status = ''done''\<rparr>],
      list_all_csv = None, data_dir = []\<rparr>,
      [\<lparr>code = ''1301'', name = ''A'', board = ''T'', status = ''done''\<rparr>,
       \<lparr>code = ''1332'', name = ''B'', board = ''T'', status = ''pending''\<rparr>]) \<and>
   merge_new_codes
     [\<lparr>code = ''1301'', name = ''A'', board = ''T'', status = ''done''\<rparr>,
      \<lparr>code = ''1332'', name = ''B'', board = ''T'', status = ''pending''\<rparr>]
     [\<lparr>code = ''1301'', name = ''A'', board = ''T''\<rparr>, \<lparr>code = ''1332'', name = ''B'', board = ''T''\<rparr>]
   = [\<lparr>code = ''1301'', name = ''A'', board = ''T'', status = ''done''\<rparr>,
      \<lparr>code = ''1332'', name = ''B'', board = ''T'', status = ''pending''\<rparr>]"
  using merge_idempotent
    [of "[\<lparr>code = ''1301'', name = ''A'', board = ''T'', status = ''done''\<rparr>]"
        "[\<lparr>code = ''1301'', name = ''A'', board = ''T''\<rparr>, \<lparr>code = ''1332'', name = ''B'', board = ''T''\<rparr>]"
        "\<lparr>manifest_csv = Some [\<lparr>code = ''1301'', name = ''A'', board = ''T'', status = ''done''\<rparr>],
          list_all_csv = None, data_dir = []\<rparr>"]
  by (simp add: merge_new_codes_def new_codes_def with_status_def)

section \<open>The rows selected for download\<close>

text \<open>
  C2, the claim as written fails: a row with status \<open>empty\<close> is not among the rows
  that line 151 of \<open>main\<close> selects, so it is not submitted again.
\<close>

theorem todo_rows_counterexample:
  "(1, \<lparr>code = ''1332'', name = ''B'', board = ''T'', status = ''empty''\<rparr>)
     \<notin> set (todo_rows [\<lparr>code = ''1301'', name = ''A'', board = ''T'', status = ''pending''\<rparr>,
                        \<lparr>code = ''1332'', name = ''B'', board = ''T'', status = ''empty''\<rparr>]) \<and>
   todo_rows [\<lparr>code = ''1301'', name = ''A'', board = ''T'', status = ''pending''\<rparr>,
              \<lparr>code = ''1332'', name = ''B'', board = ''T'', status = ''empty''\<rparr>]
     = [(0, \<lparr>code = ''1301'', name = ''A'', board = ''T'', status = ''pending''\<rparr>)]"
  by (simp add: todo_rows_def)

text \<open>
  C2, as amended. The rows \<open>main\<close> selects are exactly the rows of the manifest, each
  with its index, whose status is neither \<open>done\<close> nor \<open>empty\<close>; in a manifest whose
  statuses are all among \<open>pending\<close>, \<open>done\<close>, \<open>empty\<close> and \<open>failed\<close> these are exactly
  the rows with status \<open>pending\<close> or \<open>failed\<close>.
\<close>

theorem todo_rows_selects:
  "((idx, row) \<in> set (todo_rows mf) \<longleftrightarrow>
      idx < length mf \<and> row = mf ! idx \<and> status row \<noteq> ''done'' \<and> status row \<noteq> ''empty'') \<and>
   ((\<forall>r \<in> set mf. status r \<in> status_domain) \<longrightarrow>
      ((idx, row) \<in> set (todo_rows mf) \<longleftrightarrow>
         idx < length mf \<and> row = mf ! idx \<and> (status row = ''pending'' \<or> status row = ''failed'')))"
proof -
  have sel: "(idx, row) \<in> set (todo_rows mf) \<longleftrightarrow>
      idx < length mf \<and> row = mf ! idx \<and> status row \<noteq> ''done'' \<and> status row \<noteq> ''empty''"
    by (auto simp: todo_rows_def in_set_enumerate_eq)
  have dom: "status row = ''pending'' \<or> status row = ''failed''"
    if "\<forall>r \<in> set mf. status r \<in> status_domain" "idx < length mf" "row = mf ! idx"
       "status row \<noteq> ''done''" "status row \<noteq> ''empty''"
  proof -
    from that(1-3) have "status row \<in> status_domain" by simp
    with that(4,5) show ?thesis by (simp add: status_domain_def)
  qed
  show ?thesis using sel dom by auto
qed

theorem todo_rows_selects_witness:
  "status \<lparr>code = ''1301'', name = ''A'', board = ''T'', status = ''failed''\<rparr> \<in> status_domain \<and>
   status \<lparr>code = ''1332'', name = ''B'', board = ''T'', status = ''done''\<rparr> \<in> status_domain \<and>
   (0, \<lparr>code = ''1301'', name = ''A'', board = ''T'', status = ''failed''\<rparr>)
     \<in> set (todo_rows [\<lparr>code = ''1301'', name = ''A'', board = ''T'', status = ''failed''\<rparr>,
                        \<lparr>code = ''1332'', name = ''B'', board = ''T'', status = ''done''\<rparr>]) \<and>
   (1, \<lparr>code = ''1332'', name = ''B'', board = ''T'', status = ''done''\<rparr>)
     \<notin> set (todo_rows [\<lparr>code = ''1301'', name = ''A'', board = ''T'', status = ''failed''\<rparr>,
                        \<lparr>code = ''1332'', name = ''B'', board = ''T'', status = ''done''\<rparr>])"
proof -
  have d: "\<forall>r \<in> set [\<lparr>code = ''1301'', name = ''A'', board = ''T'', status = ''failed''\<rparr>,
                      \<lparr>code = ''1332'', name = ''B'', board = ''T'', status = ''done''\<rparr>].
             status r \<in> status_domain"
    by (simp add: status_domain_def)
  from d todo_rows_selects
    [of 0 "\<lparr>code = ''1301'', name = ''A'', board = ''T'', status = ''failed''\<rparr>"
        "[\<lparr>code = ''1301'', name = ''A'', board = ''T'', status = ''failed''\<rparr>,
          \<lparr>code = ''1332'', name = ''B'', board = ''T'', status = ''done''\<rparr>]"]
  have a: "(0, \<lparr>code = ''1301'', name = ''A'', board = ''T'', status = ''failed''\<rparr>)
     \<in> set (todo_rows [\<lparr>code = ''1301'', name = ''A'', board = ''T'', status = ''failed''\<rparr>,
                        \<lparr>code = ''1332'', name = ''B'', board = ''T'', status = ''done''\<rparr>])"
    by simp
  from todo_rows_selects
    [of 1 "\<lparr>code = ''1332'', name = ''B'', board = ''T'', status = ''done''\<rparr>"
        "[\<lparr>code = ''1301'', name = ''A'', board = ''T'', status = ''failed''\<rparr>,
          \<lparr>code = ''1332'', name = ''B'', board = ''T'', status = ''done''\<rparr>]"]
  have b: "(1, \<lparr>code = ''1332'', name = ''B'', board = ''T'', status = ''done''\<rparr>)
     \<notin> set (todo_rows [\<lparr>code = ''1301'', name = ''A'', board = ''T'', status = ''failed''\<rparr>,
                        \<lparr>code = ''1332'', name = ''B'', board = ''T'', status = ''done''\<rparr>])"
    by simp
  from d a b show ?thesis by simp
qed

section \<open>Retries\<close>

lemma upt_max_retries: "[0..<max_retries] = [0, 1, 2]"
  by (simp add: max_retries_def upt_rec)

lemma upt_two: "[0..<2] = [0, Suc 0]"
  by (simp add: upt_rec)

lemma jp_attempts_raise:
  assumes "\<forall>k. \<exists>e. fetch k = Raises (Exception e)"
  shows "jp_attempts fetch out_path (dir, calls) [0, 1, 2] = ((dir, calls + 3), Inr ''failed'')"
proof -
  obtain e0 where e0: "fetch calls = Raises (Exception e0)" using assms by blast
  obtain e1 where e1: "fetch (Suc calls) = Raises (Exception e1)" using assms by blast
  obtain e2 where e2: "fetch (Suc (Suc calls)) = Raises (Exception e2)" using assms by blast
  show ?thesis
    by (simp add: e0 e1 e2 jp_try_block_def try_except_def bare_except_def max_retries_def)
qed

lemma us_attempts_raise:
  assumes "\<forall>k. \<exists>e. fetch k = Raises (Exception e)"
  shows "us_attempts fetch today out_path yf_tkr (fs, calls) [0, Suc 0]
           = ((fs, calls + 2), Inr (''empty'', Some yf_tkr))"
proof -
  obtain e0 where e0: "fetch calls = Raises (Exception e0)" using assms by blast
  obtain e1 where e1: "fetch (Suc calls) = Raises (Exception e1)" using assms by blast
  show ?thesis
    by (simp add: e0 e1 us_try_block_def try_except_def bare_except_def)
qed

text \<open>
  C3, the claim as written fails for the US module: when every call of the provider
  raises, \<open>download_stock_data\<close> calls it twice and returns the status \<open>empty\<close>, not
  \<open>failed\<close>.
\<close>

theorem us_exhaustion_counterexample:
  "download_stock_data always_raises 2 [] ''AAPL&Apple''
     = (([], 2), Inr (''empty'', Some ''AAPL''))"
  by (simp add: download_stock_data_def split_amp_def us_out_path_def us_exists_big_def
      upt_two always_raises_def us_try_block_def try_except_def bare_except_def)

text \<open>
  C3, as amended. When every call of the provider raises, \<open>download_one\<close> of the
  Japanese module calls it exactly \<open>max_retries\<close> times and returns \<open>failed\<close> for the
  row; \<open>download_stock_data\<close> of the US module, for a well-formed item with no cached
  file, calls it exactly twice and returns \<open>empty\<close>.
\<close>

theorem retries_exhausted:
  assumes "\<forall>k. \<exists>e. fetch k = Raises (Exception e)"
  shows "jp_download_one fetch dir (idx, row) = ((dir, max_retries), Inr (idx, ''failed'')) \<and>
         (split_amp item = Some (yf_tkr, nm) \<and> \<not> us_exists_big fs (us_out_path yf_tkr nm) \<longrightarrow>
            download_stock_data fetch today fs item = ((fs, 2), Inr (''empty'', Some yf_tkr)))"
proof
  show "jp_download_one fetch dir (idx, row) = ((dir, max_retries), Inr (idx, ''failed''))"
  proof -
    have "jp_attempts fetch out_path (dir, 0) [0..<max_retries] = ((dir, max_retries), Inr ''failed'')"
      for out_path
      unfolding upt_max_retries using jp_attempts_raise [OF assms, of out_path dir 0]
      by (simp add: max_retries_def)
    then show ?thesis by (simp add: jp_download_one_def Let_def)
  qed
  show "split_amp item = Some (yf_tkr, nm) \<and> \<not> us_exists_big fs (us_out_path yf_tkr nm) \<longrightarrow>
            download_stock_data fetch today fs item = ((fs, 2), Inr (''empty'', Some yf_tkr))"
    using us_attempts_raise [OF assms, of today _ yf_tkr fs 0]
    by (simp add: download_stock_data_def upt_two Let_def try_except_def bare_except_def)
qed

theorem retries_exhausted_witness:
  "(\<forall>k. \<exists>e. always_raises k = Raises (Exception e)) \<and>
   jp_download_one always_raises []
      (7, \<lparr>code = ''1301'', name = ''A'', board = ''T'', status = ''pending''\<rparr>)
     = (([], 3), Inr (7, ''failed'')) \<and>
   split_amp ''AAPL&Apple'' = Some (''AAPL'', ''Apple'') \<and>
   \<not> us_exists_big [] (us_out_path ''AAPL'' ''Apple'') \<and>
   download_stock_data always_raises 2 [] ''AAPL&Apple'' = (([], 2), Inr (''empty'', Some ''AAPL''))"
proof -
  have h: "\<forall>k. \<exists>e. always_raises k = Raises (Exception e)"
    by (simp add: always_raises_def)
  have s: "split_amp ''AAPL&Apple'' = Some (''AAPL'', ''Apple'')"
    by (simp add: split_amp_def)
  have n: "\<not> us_exists_big [] (us_out_path ''AAPL'' ''Apple'')"
    by (simp add: us_exists_big_def)
  show ?thesis
    using h s n retries_exhausted [OF h, of "[]" 7
        "\<lparr>code = ''1301'', name = ''A'', board = ''T'', status = ''pending''\<rparr>"
        "''AAPL&Apple''" "''AAPL''" "''Apple''" "[]" 2]
    by (simp add: max_retries_def)
qed

section \<open>The check for a cached file\<close>

lemma cn_is_fresh_iff:
  "cn_is_fresh fs today out_path \<longleftrightarrow>
     (\<exists>f. map_of fs out_path = Some f \<and> getmtime f = today \<and> 1000 < getsize f)"
  by (simp add: cn_is_fresh_def split: option.splits)

lemma us_exists_big_iff:
  "us_exists_big fs out_path \<longleftrightarrow> (\<exists>f. map_of fs out_path = Some f \<and> 1000 < getsize f)"
  by (simp add: us_exists_big_def split: option.splits)

lemma us_attempts_not_exists:
  "us_attempts fetch today out_path yf_tkr w xs = (w', Inr (st, t)) \<Longrightarrow> st \<noteq> ''exists''"
proof (induction xs arbitrary: w)
  case Nil
  then show ?case by auto
next
  case (Cons attempt rest)
  obtain fs calls where w: "w = (fs, calls)" by (cases w)
  show ?case
  proof (cases "fetch calls")
    case (Raises e)
    with Cons w show ?thesis
      by (cases e) (simp_all add: us_try_block_def try_except_def)
  next
    case NoData
    with Cons w show ?thesis by (simp add: us_try_block_def try_except_def)
  next
    case (Frame sz)
    with Cons.prems w show ?thesis by (auto simp: us_try_block_def try_except_def)
  qed
qed

text \<open>
  C4, the claim as written fails for the US module: a file last modified on another
  day than today passes its check, and the provider is not called.
\<close>

theorem us_stale_file_counterexample:
  "download_stock_data always_answers 2
      [(''AAPL_Apple.csv'', \<lparr>getmtime = 1, getsize = 2000\<rparr>)] ''AAPL&Apple''
     = (([(''AAPL_Apple.csv'', \<lparr>getmtime = 1, getsize = 2000\<rparr>)], 0),
        Inr (''exists'', Some ''AAPL''))"
  by (simp add: download_stock_data_def split_amp_def us_out_path_def us_exists_big_def
      try_except_def bare_except_def isalnum_def strip_def isspace_def)

text \<open>
  C4, as amended. For a well-formed item, \<open>download_one\<close> of the Chinese module
  returns \<open>exists\<close> if and only if the file of the item exists, was last modified today
  and is larger than 1000 bytes; \<open>download_stock_data\<close> of the US module returns
  \<open>exists\<close> if and only if the file exists and is larger than 1000 bytes, whatever its
  date. In both, a run that returns \<open>exists\<close> has not called the provider and has left
  the files as they were.
\<close>

theorem cache_gate:
  "(split_amp item = Some (cd, nm) \<longrightarrow>
      ((\<exists>w. cn_download_one fetch today fs item = (w, Inr (''exists'', cd))) \<longleftrightarrow>
         (\<exists>f. map_of fs (cd @ ''_'' @ nm @ ''.csv'') = Some f \<and>
              getmtime f = today \<and> 1000 < getsize f)) \<and>
      (\<forall>w c. cn_download_one fetch today fs item = (w, Inr (''exists'', c)) \<longrightarrow> w = (fs, 0))) \<and>
   (split_amp item = Some (cd, nm) \<longrightarrow>
      ((\<exists>w. download_stock_data fetch today fs item = (w, Inr (''exists'', Some cd))) \<longleftrightarrow>
         (\<exists>f. map_of fs (us_out_path cd nm) = Some f \<and> 1000 < getsize f)) \<and>
      (\<forall>w t. download_stock_data fetch today fs item = (w, Inr (''exists'', t)) \<longrightarrow> w = (fs, 0)))"
proof (intro conjI impI)
  assume s: "split_amp item = Some (cd, nm)"
  show "(\<exists>w. cn_download_one fetch today fs item = (w, Inr (''exists'', cd))) \<longleftrightarrow>
         (\<exists>f. map_of fs (cd @ ''_'' @ nm @ ''.csv'') = Some f \<and>
              getmtime f = today \<and> 1000 < getsize f)"
    unfolding cn_is_fresh_iff [symmetric]
    by (cases "fetch 0") (auto simp: cn_download_one_def s try_except_def bare_except_def Let_def)
  show "\<forall>w c. cn_download_one fetch today fs item = (w, Inr (''exists'', c)) \<longrightarrow> w = (fs, 0)"
    by (cases "fetch 0") (auto simp: cn_download_one_def s try_except_def bare_except_def Let_def split: if_splits)
next
  assume s: "split_amp item = Some (cd, nm)"
  show "(\<exists>w. download_stock_data fetch today fs item = (w, Inr (''exists'', Some cd))) \<longleftrightarrow>
         (\<exists>f. map_of fs (us_out_path cd nm) = Some f \<and> 1000 < getsize f)"
    unfolding us_exists_big_iff [symmetric]
  proof (cases "us_exists_big fs (us_out_path cd nm)")
    case True
    then show "(\<exists>w. download_stock_data fetch today fs item = (w, Inr (''exists'', Some cd))) \<longleftrightarrow>
      us_exists_big fs (us_out_path cd nm)"
      by (simp add: download_stock_data_def s try_except_def bare_except_def Let_def)
  next
    case False
    obtain w' r where a: "us_attempts fetch today (us_out_path cd nm) cd (fs, 0) [0..<2] = (w', r)"
      by (cases "us_attempts fetch today (us_out_path cd nm) cd (fs, 0) [0..<2]")
    have "r \<noteq> Inr (''exists'', Some cd)"
      using us_attempts_not_exists a by blast
    with False a show "(\<exists>w. download_stock_data fetch today fs item = (w, Inr (''exists'', Some cd))) \<longleftrightarrow>
      us_exists_big fs (us_out_path cd nm)"
      by (cases r) (auto simp: download_stock_data_def s try_except_def bare_except_def Let_def)
  qed
  show "\<forall>w t. download_stock_data fetch today fs item = (w, Inr (''exists'', t)) \<longrightarrow> w = (fs, 0)"
  proof (cases "us_exists_big fs (us_out_path cd nm)")
    case True
    then show ?thesis by (simp add: download_stock_data_def s try_except_def bare_except_def Let_def)
  next
    case False
    obtain w' r where a: "us_attempts fetch today (us_out_path cd nm) cd (fs, 0) [0..<2] = (w', r)"
      by (cases "us_attempts fetch today (us_out_path cd nm) cd (fs, 0) [0..<2]")
    have "r \<noteq> Inr (''exists'', t)" for t
      using us_attempts_not_exists a by blast
    with False a show ?thesis
      by (cases r) (auto simp: download_stock_data_def s try_except_def bare_except_def Let_def)
  qed
qed

theorem cache_gate_witness:
  "split_amp ''600519&x'' = Some (''600519'', ''x'') \<and>
   map_of [(''600519_x.csv'', \<lparr>getmtime = 2, getsize = 2000\<rparr>)] (''600519'' @ ''_'' @ ''x'' @ ''.csv'')
     = Some \<lparr>getmtime = 2, getsize = 2000\<rparr> \<and>
   cn_download_one always_answers 2 [(''600519_x.csv'', \<lparr>getmtime = 2, getsize = 2000\<rparr>)] ''600519&x''
     = (([(''600519_x.csv'', \<lparr>getmtime = 2, getsize = 2000\<rparr>)], 0), Inr (''exists'', ''600519'')) \<and>
   (\<exists>w. download_stock_data always_answers 2 [(''600519_x.csv'', \<lparr>getmtime = 2, getsize = 2000\<rparr>)]
          ''600519&x'' = (w, Inr (''exists'', Some ''600519'')))"
proof -
  have s: "split_amp ''600519&x'' = Some (''600519'', ''x'')"
    by (simp add: split_amp_def)
  have m: "map_of [(''600519_x.csv'', \<lparr>getmtime = 2, getsize = 2000\<rparr>)]
             (''600519'' @ ''_'' @ ''x'' @ ''.csv'') = Some \<lparr>getmtime = 2, getsize = 2000\<rparr>"
    by simp
  have p: "us_out_path ''600519'' ''x'' = ''600519_x.csv''"
    by (simp add: us_out_path_def isalnum_def strip_def isspace_def)
  note g = cache_gate [of "''600519&x''" "''600519''" "''x''" always_answers 2
        "[(''600519_x.csv'', \<lparr>getmtime = 2, getsize = 2000\<rparr>)]"]
  from g s m have "\<exists>w. cn_download_one always_answers 2
        [(''600519_x.csv'', \<lparr>getmtime = 2, getsize = 2000\<rparr>)] ''600519&x''
          = (w, Inr (''exists'', ''600519''))"
    by simp
  moreover from g s have "\<forall>w c. cn_download_one always_answers 2
        [(''600519_x.csv'', \<lparr>getmtime = 2, getsize = 2000\<rparr>)] ''600519&x''
          = (w, Inr (''exists'', c)) \<longrightarrow> w = ([(''600519_x.csv'', \<lparr>getmtime = 2, getsize = 2000\<rparr>)], 0)"
    by simp
  ultimately have c: "cn_download_one always_answers 2
        [(''600519_x.csv'', \<lparr>getmtime = 2, getsize = 2000\<rparr>)] ''600519&x''
     = (([(''600519_x.csv'', \<lparr>getmtime = 2, getsize = 2000\<rparr>)], 0), Inr (''exists'', ''600519''))"
    by blast
  from g s p have u: "\<exists>w. download_stock_data always_answers 2
        [(''600519_x.csv'', \<lparr>getmtime = 2, getsize = 2000\<rparr>)] ''600519&x''
          = (w, Inr (''exists'', Some ''600519''))"
    by simp
  from s m c u show ?thesis by blast
qed

section \<open>Resolving the listing\<close>

text \<open>
  C5. When the listing obtained from the source holds fewer targets than the threshold
  of the market, \<open>get_full_stock_list\<close> and \<open>get_tse_list\<close> leave the cache file as it
  was, and when a cache file exists they return its content.
\<close>

theorem undersized_listing_falls_back:
  "(length (remdups (site_rows nasdaqlisted @ site_rows otherlisted)) < threshold_us \<longrightarrow>
      fst (get_full_stock_list cache today nasdaqlisted otherlisted) = cache \<and>
      (\<forall>c. cache = Some c \<longrightarrow>
         snd (get_full_stock_list cache today nasdaqlisted otherlisted) = cache_items c)) \<and>
   (length (drop_duplicates [] (tse_res df)) < threshold_jp \<longrightarrow>
      fst (get_tse_list fs (Inr df)) = fs \<and>
      (\<forall>cached. list_all_csv fs = Some cached \<longrightarrow> snd (get_tse_list fs (Inr df)) = cached))"
proof (intro conjI impI)
  assume u: "length (remdups (site_rows nasdaqlisted @ site_rows otherlisted)) < threshold_us"
  show "fst (get_full_stock_list cache today nasdaqlisted otherlisted) = cache"
    using u by (simp add: get_full_stock_list_def Let_def split: option.splits)
  show "\<forall>c. cache = Some c \<longrightarrow>
         snd (get_full_stock_list cache today nasdaqlisted otherlisted) = cache_items c"
    using u by (simp add: get_full_stock_list_def Let_def split: option.splits)
next
  assume u: "length (drop_duplicates [] (tse_res df)) < threshold_jp"
  show "fst (get_tse_list fs (Inr df)) = fs"
    using u by (simp add: get_tse_list_def tse_except_def Let_def split: option.splits)
  show "\<forall>cached. list_all_csv fs = Some cached \<longrightarrow> snd (get_tse_list fs (Inr df)) = cached"
    using u by (simp add: get_tse_list_def tse_except_def Let_def split: option.splits)
qed

lemma site_rows_example:
  "site_rows (Inr [\<lparr>test_issue = ''N'', symbol = ''BRK$A'', security_name = ''Berk'', etf = ''N''\<rparr>])
     = [''BRK-A&Berk'']"
  by code_simp

lemma tse_res_example:
  "tse_res \<lparr>code_col = True, name_col = True, cells = [(''1301'', ''n1'')]\<rparr>
     = [\<lparr>code = ''1301'', name = ''n1'', board = ''T''\<rparr>]"
  by (simp add: tse_res_def strip_def isspace_def isdigit_def isdigit_char_def)

theorem undersized_listing_falls_back_witness:
  "length (remdups (site_rows
       (Inr [\<lparr>test_issue = ''N'', symbol = ''BRK$A'', security_name = ''Berk'', etf = ''N''\<rparr>])
     @ site_rows (Inl (Exn ''timeout'')))) < threshold_us \<and>
   get_full_stock_list (Some \<lparr>cache_mtime = 1, cache_items = [''OLD&x'']\<rparr>) 3
       (Inr [\<lparr>test_issue = ''N'', symbol = ''BRK$A'', security_name = ''Berk'', etf = ''N''\<rparr>])
       (Inl (Exn ''timeout''))
     = (Some \<lparr>cache_mtime = 1, cache_items = [''OLD&x'']\<rparr>, [''OLD&x'']) \<and>
   length (drop_duplicates [] (tse_res \<lparr>code_col = True, name_col = True, cells = [(''1301'', ''n1'')]\<rparr>))
     < threshold_jp \<and>
   get_tse_list \<lparr>manifest_csv = None,
                 list_all_csv = Some [\<lparr>code = ''1332'', name = ''B'', board = ''T''\<rparr>], data_dir = []\<rparr>
       (Inr \<lparr>code_col = True, name_col = True, cells = [(''1301'', ''n1'')]\<rparr>)
     = (\<lparr>manifest_csv = None,
         list_all_csv = Some [\<lparr>code = ''1332'', name = ''B'', board = ''T''\<rparr>], data_dir = []\<rparr>,
        [\<lparr>code = ''1332'', name = ''B'', board = ''T''\<rparr>])"
proof -
  have a: "length (remdups (site_rows
       (Inr [\<lparr>test_issue = ''N'', symbol = ''BRK$A'', security_name = ''Berk'', etf = ''N''\<rparr>])
     @ site_rows (Inl (Exn ''timeout'')))) < threshold_us"
    unfolding site_rows_example by (simp add: site_rows_def threshold_us_def)
  have b: "length (drop_duplicates []
       (tse_res \<lparr>code_col = True, name_col = True, cells = [(''1301'', ''n1'')]\<rparr>)) < threshold_jp"
    unfolding tse_res_example by (simp add: threshold_jp_def)
  note t = undersized_listing_falls_back
      [of "Inr [\<lparr>test_issue = ''N'', symbol = ''BRK$A'', security_name = ''Berk'', etf = ''N''\<rparr>]"
          "Inl (Exn ''timeout'')" "Some \<lparr>cache_mtime = 1, cache_items = [''OLD&x'']\<rparr>" 3
          "\<lparr>code_col = True, name_col = True, cells = [(''1301'', ''n1'')]\<rparr>"
          "\<lparr>manifest_csv = None,
            list_all_csv = Some [\<lparr>code = ''1332'', name = ''B'', board = ''T''\<rparr>], data_dir = []\<rparr>"]
  from t a b show ?thesis
    by (simp add: prod_eq_iff)
qed

text \<open>
  C6, the claim as written fails: when both interfaces raise and no cache file exists,
  \<open>get_cn_list\<close> does not fail but returns the two entries written in the code.
\<close>

theorem cn_sources_exhausted_counterexample:
  "get_cn_list None 3 (Inl (Exn ''timeout'')) (Inl (Exn ''timeout'')) = (None, hard_coded_list) \<and>
   length hard_coded_list = 2"
  by (simp add: get_cn_list_def cn_backup_def hard_coded_list_def)

text \<open>
  C6, as amended. The code has no error \<open>CatalogUnavailable\<close>; \<open>get_tse_list\<close> reports
  that no listing is available by returning an empty frame. It does so only when the
  source gave no listing that reaches the threshold and no cache file holding a target
  exists, and then \<open>main\<close> returns at once: the files are as before, the provider has
  not been called, no manifest has been built, merged, changed or written.
\<close>

theorem no_listing_no_manifest_work:
  assumes "snd (get_tse_list fs src) = []"
  shows "(\<forall>df. src = Inr df \<and> code_col df \<longrightarrow>
            length (drop_duplicates [] (tse_res df)) < threshold_jp) \<and>
         (list_all_csv fs = None \<or> list_all_csv fs = Some []) \<and>
         jp_main fs src provider completed = ((fs, 0), Inr None)"
proof (intro conjI)
  show "\<forall>df. src = Inr df \<and> code_col df \<longrightarrow>
            length (drop_duplicates [] (tse_res df)) < threshold_jp"
  proof (intro allI impI)
    fix df assume d: "src = Inr df \<and> code_col df"
    show "length (drop_duplicates [] (tse_res df)) < threshold_jp"
    proof (rule ccontr)
      assume "\<not> length (drop_duplicates [] (tse_res df)) < threshold_jp"
      with d assms have "drop_duplicates [] (tse_res df) = []"
        by (simp add: get_tse_list_def Let_def)
      with \<open>\<not> length (drop_duplicates [] (tse_res df)) < threshold_jp\<close> show False
        by (simp add: threshold_jp_def)
    qed
  qed
  show "list_all_csv fs = None \<or> list_all_csv fs = Some []"
    using assms
    by (auto simp: get_tse_list_def tse_except_def Let_def threshold_jp_def
        split: sum.splits option.splits if_splits)
  have "fst (get_tse_list fs src) = fs"
    using assms
    by (auto simp: get_tse_list_def tse_except_def Let_def threshold_jp_def
        split: sum.splits option.splits if_splits)
  with assms have "get_tse_list fs src = (fs, [])"
    by (simp add: prod_eq_iff)
  then show "jp_main fs src provider completed = ((fs, 0), Inr None)"
    by (simp add: jp_main_def)
qed

theorem no_listing_no_manifest_work_witness:
  "snd (get_tse_list \<lparr>manifest_csv = None, list_all_csv = Some [], data_dir = []\<rparr>
          (Inr \<lparr>code_col = True, name_col = True, cells = [(''1301'', ''n1'')]\<rparr>)) = [] \<and>
   code_col \<lparr>code_col = True, name_col = True, cells = [(''1301'', ''n1'')]\<rparr> \<and>
   length (drop_duplicates []
      (tse_res \<lparr>code_col = True, name_col = True, cells = [(''1301'', ''n1'')]\<rparr>)) < threshold_jp \<and>
   jp_main \<lparr>manifest_csv = None, list_all_csv = Some [], data_dir = []\<rparr>
          (Inr \<lparr>code_col = True, name_col = True, cells = [(''1301'', ''n1'')]\<rparr>)
          (\<lambda>idx. always_answers) id
     = ((\<lparr>manifest_csv = None, list_all_csv = Some [], data_dir = []\<rparr>, 0), Inr None)"
proof -
  have h: "snd (get_tse_list \<lparr>manifest_csv = None, list_all_csv = Some [], data_dir = []\<rparr>
          (Inr \<lparr>code_col = True, name_col = True, cells = [(''1301'', ''n1'')]\<rparr>)) = []"
    by (simp add: get_tse_list_def Let_def tse_res_example threshold_jp_def)
  from h no_listing_no_manifest_work [OF h, of "\<lambda>idx. always_answers" id]
  show ?thesis by simp
qed

section \<open>The first manifest\<close>

text \<open>
  C8, the claim as written fails: on a first run a listed target whose data file is
  already in the data directory starts with status \<open>done\<close>.
\<close>

theorem first_run_done_counterexample:
  "build_manifest \<lparr>manifest_csv = None, list_all_csv = None, data_dir = [''1301.T.csv'']\<rparr>
      [\<lparr>code = ''1301'', name = ''A'', board = ''T''\<rparr>]
     = (\<lparr>manifest_csv = Some [\<lparr>code = ''1301'', name = ''A'', board = ''T'', status = ''done''\<rparr>],
         list_all_csv = None, data_dir = [''1301.T.csv'']\<rparr>,
        [\<lparr>code = ''1301'', name = ''A'', board = ''T'', status = ''done''\<rparr>])"
  by (simp add: build_manifest_def Let_def existing_files_def endswith_def split_dot_0_def
      with_status_def)

text \<open>
  C8, as amended. When no manifest file exists and the listing is not empty,
  \<open>build_manifest\<close> returns and writes a manifest with one row for every row of the
  listing, in the same order; the status of a row is \<open>done\<close> when the data directory
  holds a file whose name ends in \<open>.T.csv\<close> and starts, up to its first dot, with the
  code of the row, and \<open>pending\<close> otherwise. With no such file every row is \<open>pending\<close>.
\<close>

theorem first_run_manifest:
  assumes "manifest_csv fs = None" and "df_list \<noteq> []"
  shows "manifest_csv (fst (build_manifest fs df_list)) = Some (snd (build_manifest fs df_list)) \<and>
         length (snd (build_manifest fs df_list)) = length df_list \<and>
         (\<forall>i < length df_list.
            code (snd (build_manifest fs df_list) ! i) = code (df_list ! i) \<and>
            name (snd (build_manifest fs df_list) ! i) = name (df_list ! i) \<and>
            board (snd (build_manifest fs df_list) ! i) = board (df_list ! i) \<and>
            status (snd (build_manifest fs df_list) ! i) =
              (if \<exists>f \<in> set (data_dir fs). endswith f ''.T.csv'' \<and> split_dot_0 f = code (df_list ! i)
               then ''done'' else ''pending'')) \<and>
         ((\<forall>f \<in> set (data_dir fs). \<not> endswith f ''.T.csv'') \<longrightarrow>
            (\<forall>r \<in> set (snd (build_manifest fs df_list)). status r = ''pending''))"
proof -
  have ex: "c \<in> set (existing_files (data_dir fs)) \<longleftrightarrow>
      (\<exists>f \<in> set (data_dir fs). endswith f ''.T.csv'' \<and> split_dot_0 f = c)" for c
    by (auto simp: existing_files_def)
  have none: "existing_files (data_dir fs) = []" if "\<forall>f \<in> set (data_dir fs). \<not> endswith f ''.T.csv''"
    using that by (simp add: existing_files_def filter_empty_conv)
  show ?thesis
    using assms by (auto simp: build_manifest_def Let_def with_status_def ex none)
qed

theorem first_run_manifest_witness:
  "manifest_csv \<lparr>manifest_csv = None, list_all_csv = None, data_dir = [''1301.T.csv'', ''notes.txt'']\<rparr>
     = None \<and>
   [\<lparr>code = ''1301'', name = ''A'', board = ''T''\<rparr>, \<lparr>code = ''1332'', name = ''B'', board = ''T''\<rparr>] \<noteq> [] \<and>
   map status (snd (build_manifest
      \<lparr>manifest_csv = None, list_all_csv = None, data_dir = [''1301.T.csv'', ''notes.txt'']\<rparr>
      [\<lparr>code = ''1301'', name = ''A'', board = ''T''\<rparr>, \<lparr>code = ''1332'', name = ''B'', board = ''T''\<rparr>]))
     = [''done'', ''pending''] \<and>
   \<not> endswith ''notes.txt'' ''.T.csv'' \<and>
   map status (snd (build_manifest
      \<lparr>manifest_csv = None, list_all_csv = None, data_dir = [''notes.txt'']\<rparr>
      [\<lparr>code = ''1301'', name = ''A'', board = ''T''\<rparr>])) = [''pending'']"
proof -
  have a: "manifest_csv \<lparr>manifest_csv = None, list_all_csv = None,
             data_dir = [''1301.T.csv'', ''notes.txt'']\<rparr> = None"
    by simp
  have b: "[\<lparr>code = ''1301'', name = ''A'', board = ''T''\<rparr>,
            \<lparr>code = ''1332'', name = ''B'', board = ''T''\<rparr>] \<noteq> []"
    by simp
  have c: "manifest_csv \<lparr>manifest_csv = None, list_all_csv = None, data_dir = [''notes.txt'']\<rparr> = None"
    by simp
  have d: "[\<lparr>code = ''1301'', name = ''A'', board = ''T''\<rparr>] \<noteq> []"
    by simp
  have e: "\<not> endswith ''notes.txt'' ''.T.csv''"
    by (simp add: endswith_def)
  have x: "\<exists>f \<in> set (data_dir \<lparr>manifest_csv = None, list_all_csv = None,
             data_dir = [''1301.T.csv'', ''notes.txt'']\<rparr>).
             endswith f ''.T.csv'' \<and> split_dot_0 f = ''1301''"
    by (simp add: endswith_def split_dot_0_def)
  have y: "\<not> (\<exists>f \<in> set (data_dir \<lparr>manifest_csv = None, list_all_csv = None,
             data_dir = [''1301.T.csv'', ''notes.txt'']\<rparr>).
             endswith f ''.T.csv'' \<and> split_dot_0 f = ''1332'')"
    by (simp add: endswith_def split_dot_0_def)
  note t = first_run_manifest [OF a b]
  from t have l: "length (snd (build_manifest
      \<lparr>manifest_csv = None, list_all_csv = None, data_dir = [''1301.T.csv'', ''notes.txt'']\<rparr>
      [\<lparr>code = ''1301'', name = ''A'', board = ''T''\<rparr>, \<lparr>code = ''1332'', name = ''B'', board = ''T''\<rparr>])) = 2"
    by simp
  from t x have s0: "status (snd (build_manifest
      \<lparr>manifest_csv = None, list_all_csv = None, data_dir = [''1301.T.csv'', ''notes.txt'']\<rparr>
      [\<lparr>code = ''1301'', name = ''A'', board = ''T''\<rparr>, \<lparr>code = ''1332'', name = ''B'', board = ''T''\<rparr>]) ! 0)
        = ''done''"
    by force
  from t y have s1: "status (snd (build_manifest
      \<lparr>manifest_csv = None, list_all_csv = None, data_dir = [''1301.T.csv'', ''notes.txt'']\<rparr>
      [\<lparr>code = ''1301'', name = ''A'', board = ''T''\<rparr>, \<lparr>code = ''1332'', name = ''B'', board = ''T''\<rparr>]) ! 1)
        = ''pending''"
    by force
  have two: "map f xs = [f (xs ! 0), f (xs ! 1)]" if "length xs = 2" for f :: "entry \<Rightarrow> string" and xs
    using that by (cases xs; cases "tl xs") auto
  from two [OF l] s0 s1 have q: "map status (snd (build_manifest
      \<lparr>manifest_csv = None, list_all_csv = None, data_dir = [''1301.T.csv'', ''notes.txt'']\<rparr>
      [\<lparr>code = ''1301'', name = ''A'', board = ''T''\<rparr>, \<lparr>code = ''1332'', name = ''B'', board = ''T''\<rparr>]))
     = [''done'', ''pending'']"
    by simp
  have p: "map status (snd (build_manifest
      \<lparr>manifest_csv = None, list_all_csv = None, data_dir = [''notes.txt'']\<rparr>
      [\<lparr>code = ''1301'', name = ''A'', board = ''T''\<rparr>])) = [''pending'']"
    by (simp add: build_manifest_def Let_def existing_files_def endswith_def with_status_def)
  from a b q e p show ?thesis by blast
qed

section \<open>What a download returns or raises\<close>

lemma jp_attempts_result:
  "(\<exists>w' st. jp_attempts fetch out_path w xs = (w', Inr st) \<and>
      (st = ''done'' \<or> st = ''empty'' \<or> st = ''failed'')) \<or>
   (\<exists>w' e k. jp_attempts fetch out_path w xs = (w', Inl e) \<and>
      fetch k = Raises e \<and> \<not> isinstance_Exception e)"
proof (induction xs arbitrary: w)
  case Nil
  show ?case by simp
next
  case (Cons attempt rest)
  obtain dir calls where w: "w = (dir, calls)" by (cases w)
  show ?case
  proof (cases "fetch calls")
    case (Raises e)
    show ?thesis
    proof (cases "isinstance_Exception e")
      case False
      with Raises w have "jp_attempts fetch out_path w (attempt # rest) = ((dir, Suc calls), Inl e)"
        by (simp add: jp_try_block_def try_except_def)
      with Raises False show ?thesis by blast
    next
      case True
      show ?thesis
      proof (cases "attempt = max_retries - 1")
        case last: True
        with Raises True w show ?thesis by (simp add: jp_try_block_def try_except_def)
      next
        case more: False
        with Raises True w Cons.IH [of "(dir, Suc calls)"] show ?thesis
          by (simp add: jp_try_block_def try_except_def)
      qed
    qed
  next
    case NoData
    show ?thesis
    proof (cases "attempt = max_retries - 1")
      case True
      with NoData w show ?thesis by (simp add: jp_try_block_def try_except_def)
    next
      case False
      with NoData w Cons.IH [of "(dir, Suc calls)"] show ?thesis
        by (simp add: jp_try_block_def try_except_def)
    qed
  next
    case (Frame sz)
    with w show ?thesis by (simp add: jp_try_block_def try_except_def)
  qed
qed

lemma jp_download_one_result:
  "(\<exists>w st. jp_download_one fetch dir (idx, row) = (w, Inr (idx, st)) \<and>
      (st = ''done'' \<or> st = ''empty'' \<or> st = ''failed'')) \<or>
   (\<exists>w e k. jp_download_one fetch dir (idx, row) = (w, Inl e) \<and>
      fetch k = Raises e \<and> \<not> isinstance_Exception e)"
  using jp_attempts_result [of fetch "zfill 4 (code row) @ ''.T.csv''" "(dir, 0)" "[0..<max_retries]"]
  by (auto simp: jp_download_one_def Let_def)

lemma jp_download_one_classified:
  assumes "\<forall>k e. fetch k = Raises e \<longrightarrow> isinstance_Exception e"
  shows "\<exists>w st. jp_download_one fetch dir (idx, row) = (w, Inr (idx, st)) \<and>
      (st = ''done'' \<or> st = ''empty'' \<or> st = ''failed'')"
  using jp_download_one_result [of fetch dir idx row] assms by blast

lemma jp_download_one_propagates:
  assumes "jp_download_one fetch dir (idx, row) = (w, Inl e)"
  shows "\<not> isinstance_Exception e \<and> (\<exists>k. fetch k = Raises e)"
  using jp_download_one_result [of fetch dir idx row] assms by auto

lemma us_attempts_result:
  "(\<exists>w' st. us_attempts fetch today out_path yf_tkr w xs = (w', Inr (st, Some yf_tkr)) \<and>
      (st = ''success'' \<or> st = ''empty'')) \<or>
   (\<exists>w' e. us_attempts fetch today out_path yf_tkr w xs = (w', Inl e))"
proof (induction xs arbitrary: w)
  case Nil
  show ?case by simp
next
  case (Cons attempt rest)
  obtain fs calls where w: "w = (fs, calls)" by (cases w)
  show ?case
  proof (cases "fetch calls")
    case (Raises e)
    with w Cons.IH [of "(fs, Suc calls)"] show ?thesis
      by (cases e) (simp_all add: us_try_block_def try_except_def)
  next
    case NoData
    with w Cons.IH [of "(fs, Suc calls)"] show ?thesis
      by (simp add: us_try_block_def try_except_def)
  next
    case (Frame sz)
    with w show ?thesis by (simp add: us_try_block_def try_except_def)
  qed
qed

lemma download_stock_data_classified:
  "\<exists>w st t. download_stock_data fetch today fs item = (w, Inr (st, t)) \<and>
      (st = ''exists'' \<or> st = ''success'' \<or> st = ''empty'' \<or> st = ''error'')"
proof (cases "split_amp item")
  case None
  then show ?thesis by (simp add: download_stock_data_def try_except_def bare_except_def)
next
  case (Some p)
  obtain yf_tkr nm where p: "p = (yf_tkr, nm)" by (cases p)
  show ?thesis
  proof (cases "us_exists_big fs (us_out_path yf_tkr nm)")
    case True
    with Some p show ?thesis by (simp add: download_stock_data_def try_except_def)
  next
    case False
    from us_attempts_result [of fetch today "us_out_path yf_tkr nm" yf_tkr "(fs, 0)" "[0..<2]"]
    show ?thesis
    proof
      assume "\<exists>w' st. us_attempts fetch today (us_out_path yf_tkr nm) yf_tkr (fs, 0) [0..<2]
                = (w', Inr (st, Some yf_tkr)) \<and> (st = ''success'' \<or> st = ''empty'')"
      with False Some p show ?thesis
        by (auto simp: download_stock_data_def try_except_def Let_def)
    next
      assume "\<exists>w' e. us_attempts fetch today (us_out_path yf_tkr nm) yf_tkr (fs, 0) [0..<2]
                = (w', Inl e)"
      with False Some p show ?thesis
        by (auto simp: download_stock_data_def try_except_def bare_except_def Let_def)
    qed
  qed
qed

lemma cn_download_one_classified:
  "\<exists>w st c. cn_download_one fetch today fs item = (w, Inr (st, c)) \<and>
      (st = ''exists'' \<or> st = ''success'' \<or> st = ''empty'' \<or> st = ''error'')"
proof (cases "split_amp item")
  case None
  then show ?thesis by (simp add: cn_download_one_def try_except_def bare_except_def)
next
  case (Some p)
  obtain cd nm where p: "p = (cd, nm)" by (cases p)
  show ?thesis
    using Some p
    by (cases "fetch 0") (auto simp: cn_download_one_def try_except_def bare_except_def Let_def)
qed

lemma run_futures_classified:
  assumes "\<forall>i k e. provider i k = Raises e \<longrightarrow> isinstance_Exception e"
  shows "length (snd (run_futures provider w items)) = length items \<and>
   (\<forall>r \<in> set (snd (run_futures provider w items)). \<exists>idx st. r = Inr (idx, st))"
proof (induction items arbitrary: w)
  case Nil
  show ?case by simp
next
  case (Cons item items)
  obtain dir calls where w: "w = (dir, calls)" by (cases w)
  obtain idx row where item: "item = (idx, row)" by (cases item)
  from assms have "\<forall>k e. provider idx k = Raises e \<longrightarrow> isinstance_Exception e" by blast
  then obtain w1 st where d: "jp_download_one (provider idx) dir (idx, row) = (w1, Inr (idx, st))"
    using jp_download_one_classified by blast
  obtain dir' n where w1: "w1 = (dir', n)" by (cases w1)
  obtain w' rs where r: "run_futures provider (dir', calls + n) items = (w', rs)"
    by (cases "run_futures provider (dir', calls + n) items")
  from Cons.IH [of "(dir', calls + n)"] r
  have "length rs = length items \<and> (\<forall>r \<in> set rs. \<exists>idx st. r = Inr (idx, st))"
    by simp
  with w item d w1 r show ?case by simp
qed

lemma record_results_no_raise:
  "\<forall>r \<in> set rs. \<exists>idx st. r = Inr (idx, st) \<Longrightarrow>
   snd (snd (record_results fs mf count rs)) = None"
proof (induction rs arbitrary: fs mf count)
  case Nil
  show ?case by simp
next
  case (Cons r rs)
  then obtain idx st where r: "r = Inr (idx, st)" by auto
  from Cons show ?case by (simp add: r Let_def)
qed

lemma upt_retries: "[0..<max_retries] = [0, 1, 2]"
  by (simp add: max_retries_def upt_rec)

lemma jp_download_one_exits:
  "jp_download_one always_exits dir (i, r) = ((dir, 1), Inl SystemExit)"
  unfolding jp_download_one_def upt_retries
  by (simp add: Let_def jp_try_block_def try_except_def always_exits_def)

lemma jp_download_one_answers:
  "jp_download_one always_answers dir (i, r)
     = ((List.insert (zfill 4 (code r) @ ''.T.csv'') dir, 1), Inr (i, ''done''))"
  unfolding jp_download_one_def upt_retries
  by (simp add: Let_def jp_try_block_def try_except_def always_answers_def)

text \<open>
  C9, the claim as written fails for the Japanese module: the handler of \<open>download_one\<close>
  is \<open>except Exception\<close>, so when the provider raises \<open>SystemExit\<close> the function raises
  it after one call; in \<open>main\<close> the result of that future raises it again, the loop
  ends with the status of the other row unrecorded, and \<open>main\<close> itself raises.
\<close>

theorem jp_system_exit_counterexample:
  "jp_download_one always_exits []
      (0, \<lparr>code = ''1301'', name = ''A'', board = ''T'', status = ''pending''\<rparr>)
     = (([], 1), Inl SystemExit) \<and>
   jp_main
      \<lparr>manifest_csv = Some [\<lparr>code = ''1301'', name = ''A'', board = ''T'', status = ''pending''\<rparr>,
                            \<lparr>code = ''1332'', name = ''B'', board = ''T'', status = ''pending''\<rparr>],
       list_all_csv = Some [\<lparr>code = ''1301'', name = ''A'', board = ''T''\<rparr>], data_dir = []\<rparr>
      (Inl (Exn ''timeout''))
      (\<lambda>idx. if idx = 0 then always_exits else always_answers) id
     = ((\<lparr>manifest_csv = Some [\<lparr>code = ''1301'', name = ''A'', board = ''T'', status = ''pending''\<rparr>,
                             \<lparr>code = ''1332'', name = ''B'', board = ''T'', status = ''pending''\<rparr>],
          list_all_csv = Some [\<lparr>code = ''1301'', name = ''A'', board = ''T''\<rparr>],
          data_dir = [''1332.T.csv'']\<rparr>, 2),
        Inl SystemExit)"
proof -
  have t: "todo_rows [\<lparr>code = ''1301'', name = ''A'', board = ''T'', status = ''pending''\<rparr>,
                      \<lparr>code = ''1332'', name = ''B'', board = ''T'', status = ''pending''\<rparr>]
     = [(0, \<lparr>code = ''1301'', name = ''A'', board = ''T'', status = ''pending''\<rparr>),
        (1, \<lparr>code = ''1332'', name = ''B'', board = ''T'', status = ''pending''\<rparr>)]"
    by (simp add: todo_rows_def)
  have z: "zfill 4 ''1332'' = ''1332''"
    by (simp add: zfill_def)
  show ?thesis
    by (simp add: jp_download_one_exits jp_download_one_answers jp_main_def get_tse_list_def
        tse_except_def build_manifest_def merge_new_codes_def new_codes_def t z Let_def)
qed

text \<open>
  C9, as amended. \<open>download_stock_data\<close> of the US module and \<open>download_one\<close> of the
  Chinese module return one of their statuses for every item and whatever the provider
  does or raises at each call. \<open>download_one\<close> of the Japanese module returns one of
  its statuses whenever every exception the provider raises is an instance of
  \<open>Exception\<close>, and what it raises itself is never such an instance but an exception
  the provider raised; under that condition every future of the pool holds a result,
  one per row submitted, and the loop that records them does not end on an exception.
\<close>

theorem download_returns_status:
  "((\<forall>k e. fetch k = Raises e \<longrightarrow> isinstance_Exception e) \<longrightarrow>
      (\<exists>w st. jp_download_one fetch dir (idx, row) = (w, Inr (idx, st)) \<and>
         (st = ''done'' \<or> st = ''empty'' \<or> st = ''failed''))) \<and>
   (\<forall>w e. jp_download_one fetch dir (idx, row) = (w, Inl e) \<longrightarrow>
      \<not> isinstance_Exception e \<and> (\<exists>k. fetch k = Raises e)) \<and>
   (\<exists>w st t. download_stock_data fetch today fs item = (w, Inr (st, t)) \<and>
      (st = ''exists'' \<or> st = ''success'' \<or> st = ''empty'' \<or> st = ''error'')) \<and>
   (\<exists>w st c. cn_download_one fetch today fs item = (w, Inr (st, c)) \<and>
      (st = ''exists'' \<or> st = ''success'' \<or> st = ''empty'' \<or> st = ''error'')) \<and>
   ((\<forall>i k e. provider i k = Raises e \<longrightarrow> isinstance_Exception e) \<longrightarrow>
      length (snd (run_futures provider jw items)) = length items \<and>
      (\<forall>r \<in> set (snd (run_futures provider jw items)). \<exists>idx st. r = Inr (idx, st)) \<and>
      snd (snd (record_results jfs mf count (snd (run_futures provider jw items)))) = None)"
proof (intro conjI impI allI)
  assume "\<forall>k e. fetch k = Raises e \<longrightarrow> isinstance_Exception e"
  then show "\<exists>w st. jp_download_one fetch dir (idx, row) = (w, Inr (idx, st)) \<and>
         (st = ''done'' \<or> st = ''empty'' \<or> st = ''failed'')"
    by (rule jp_download_one_classified)
next
  fix w e assume "jp_download_one fetch dir (idx, row) = (w, Inl e)"
  then show "\<not> isinstance_Exception e" and "\<exists>k. fetch k = Raises e"
    using jp_download_one_propagates by blast+
next
  show "\<exists>w st t. download_stock_data fetch today fs item = (w, Inr (st, t)) \<and>
      (st = ''exists'' \<or> st = ''success'' \<or> st = ''empty'' \<or> st = ''error'')"
    by (rule download_stock_data_classified)
  show "\<exists>w st c. cn_download_one fetch today fs item = (w, Inr (st, c)) \<and>
      (st = ''exists'' \<or> st = ''success'' \<or> st = ''empty'' \<or> st = ''error'')"
    by (rule cn_download_one_classified)
next
  assume p: "\<forall>i k e. provider i k = Raises e \<longrightarrow> isinstance_Exception e"
  from run_futures_classified [OF p, of jw items]
  show "length (snd (run_futures provider jw items)) = length items"
    and r: "\<forall>r \<in> set (snd (run_futures provider jw items)). \<exists>idx st. r = Inr (idx, st)"
    by blast+
  from record_results_no_raise [OF r]
  show "snd (snd (record_results jfs mf count (snd (run_futures provider jw items)))) = None" .
qed

theorem download_returns_status_witness:
  "always_raises 0 = Raises (Exception (Exn ''timeout'')) \<and>
   isinstance_Exception (Exception (Exn ''timeout'')) \<and>
   jp_download_one always_raises []
      (0, \<lparr>code = ''1301'', name = ''A'', board = ''T'', status = ''pending''\<rparr>)
     = (([], 3), Inr (0, ''failed'')) \<and>
   download_stock_data always_raises 2 [] ''AAPL&Apple'' = (([], 2), Inr (''empty'', Some ''AAPL'')) \<and>
   download_stock_data always_exits 2 [] ''AAPL&Apple'' = (([], 1), Inr (''error'', None)) \<and>
   cn_download_one always_exits 2 [] ''600519&x'' = (([], 1), Inr (''error'', ''600519'')) \<and>
   snd (run_futures (\<lambda>idx. always_raises) ([], 0)
        [(0, \<lparr>code = ''1301'', name = ''A'', board = ''T'', status = ''pending''\<rparr>),
         (1, \<lparr>code = ''1332'', name = ''B'', board = ''T'', status = ''failed''\<rparr>)])
     = [Inr (0, ''failed''), Inr (1, ''failed'')] \<and>
   length (snd (run_futures (\<lambda>idx. always_raises) ([], 0)
        [(0, \<lparr>code = ''1301'', name = ''A'', board = ''T'', status = ''pending''\<rparr>),
         (1, \<lparr>code = ''1332'', name = ''B'', board = ''T'', status = ''failed''\<rparr>)])) = 2"
proof -
  have h: "\<forall>k e. always_raises k = Raises e \<longrightarrow> isinstance_Exception e"
    by (auto simp: always_raises_def)
  have hp: "\<forall>i k e. (\<lambda>idx. always_raises) i k = Raises e \<longrightarrow> isinstance_Exception e"
    by (auto simp: always_raises_def)
  note t = download_returns_status [of always_raises "[]" 0
      "\<lparr>code = ''1301'', name = ''A'', board = ''T'', status = ''pending''\<rparr>" 2 "[]" "''AAPL&Apple''"
      "\<lambda>idx. always_raises" "([], 0)"
      "[(0, \<lparr>code = ''1301'', name = ''A'', board = ''T'', status = ''pending''\<rparr>),
        (1, \<lparr>code = ''1332'', name = ''B'', board = ''T'', status = ''failed''\<rparr>)]"]
  from t h have "\<exists>w st. jp_download_one always_raises []
      (0, \<lparr>code = ''1301'', name = ''A'', board = ''T'', status = ''pending''\<rparr>) = (w, Inr (0, st))"
    by blast
  from t hp have l: "length (snd (run_futures (\<lambda>idx. always_raises) ([], 0)
        [(0, \<lparr>code = ''1301'', name = ''A'', board = ''T'', status = ''pending''\<rparr>),
         (1, \<lparr>code = ''1332'', name = ''B'', board = ''T'', status = ''failed''\<rparr>)])) = 2"
    by simp
  have j: "jp_download_one always_raises [] (i, r) = (([], 3), Inr (i, ''failed''))" for i r
    unfolding jp_download_one_def upt_retries
    by (simp add: Let_def jp_try_block_def try_except_def always_raises_def max_retries_def)
  have two: "[0..<2] = [0, Suc 0]"
    by (simp add: upt_rec)
  have a: "download_stock_data always_raises 2 [] ''AAPL&Apple'' = (([], 2), Inr (''empty'', Some ''AAPL''))"
    by (simp add: download_stock_data_def split_amp_def us_out_path_def us_exists_big_def two
        always_raises_def us_try_block_def try_except_def)
  have b: "download_stock_data always_exits 2 [] ''AAPL&Apple'' = (([], 1), Inr (''error'', None))"
    by (simp add: download_stock_data_def split_amp_def us_out_path_def us_exists_big_def two
        always_exits_def us_try_block_def try_except_def bare_except_def)
  have c: "cn_download_one always_exits 2 [] ''600519&x'' = (([], 1), Inr (''error'', ''600519''))"
    by (simp add: cn_download_one_def split_amp_def split_amp_0_def try_except_def bare_except_def
        cn_is_fresh_def always_exits_def)
  have r: "snd (run_futures (\<lambda>idx. always_raises) ([], 0)
        [(0, \<lparr>code = ''1301'', name = ''A'', board = ''T'', status = ''pending''\<rparr>),
         (1, \<lparr>code = ''1332'', name = ''B'', board = ''T'', status = ''failed''\<rparr>)])
     = [Inr (0, ''failed''), Inr (1, ''failed'')]"
    by (simp add: j)
  from j a b c r l show ?thesis by (simp add: always_raises_def)
qed

section \<open>The statuses of a manifest\<close>

lemma merge_new_codes_domain:
  assumes "\<forall>r \<in> set mf. status r \<in> status_domain"
  shows "\<forall>r \<in> set (merge_new_codes mf df_list). status r \<in> status_domain"
  using assms by (auto simp: merge_new_codes_append with_status_def status_domain_def)

lemma build_manifest_domain:
  assumes "\<forall>mf. manifest_csv fs = Some mf \<longrightarrow> (\<forall>r \<in> set mf. status r \<in> status_domain)"
  shows "\<forall>r \<in> set (snd (build_manifest fs df_list)). status r \<in> status_domain"
proof (cases "manifest_csv fs")
  case None
  then show ?thesis
    by (auto simp: build_manifest_def Let_def with_status_def status_domain_def)
next
  case (Some mf)
  with assms have "\<forall>r \<in> set (merge_new_codes mf df_list). status r \<in> status_domain"
    using merge_new_codes_domain by blast
  with Some show ?thesis by (simp add: build_manifest_def)
qed

lemma set_status_domain:
  assumes "\<forall>r \<in> set mf. status r \<in> status_domain" and "st \<in> status_domain"
  shows "\<forall>r \<in> set (set_status mf idx st). status r \<in> status_domain"
proof (cases "idx < length mf")
  case True
  have "set (mf[idx := (mf ! idx)\<lparr>status := st\<rparr>]) \<subseteq> insert ((mf ! idx)\<lparr>status := st\<rparr>) (set mf)"
    by (rule set_update_subset_insert)
  with assms True show ?thesis by (auto simp: set_status_def)
next
  case False
  with assms show ?thesis by (simp add: set_status_def)
qed

lemma jp_download_one_domain:
  assumes "snd (jp_download_one fetch dir row_tuple) = Inr (idx, st)"
  shows "st \<in> status_domain"
proof -
  obtain i row where rt: "row_tuple = (i, row)" by (cases row_tuple)
  from jp_download_one_result [of fetch dir i row] assms rt
  show ?thesis by (auto simp: status_domain_def)
qed

text \<open>
  C10. Every manifest of \<open>manifest_reachable\<close>, that is every manifest obtained by the
  first construction followed by any sequence of merges of a listing and of recordings
  of the status \<open>download_one\<close> returned, has all its statuses among \<open>pending\<close>, \<open>done\<close>,
  \<open>empty\<close> and \<open>failed\<close>.
\<close>

theorem status_domain_invariant:
  assumes "manifest_reachable mf"
  shows "\<forall>r \<in> set mf. status r \<in> status_domain"
  using assms
proof (induction rule: manifest_reachable.induct)
  case (constructed fs df_list)
  then show ?case using build_manifest_domain [of fs df_list] by simp
next
  case (merged mf fs df_list)
  then show ?case using build_manifest_domain [of fs df_list] by simp
next
  case (recorded mf fetch dir row_tuple idx st)
  then show ?case using set_status_domain jp_download_one_domain by blast
qed

theorem status_domain_invariant_witness:
  "manifest_reachable
     [\<lparr>code = ''1301'', name = ''A'', board = ''T'', status = ''done''\<rparr>,
      \<lparr>code = ''1332'', name = ''B'', board = ''T'', status = ''pending''\<rparr>] \<and>
   status \<lparr>code = ''1301'', name = ''A'', board = ''T'', status = ''done''\<rparr> \<in> status_domain \<and>
   status \<lparr>code = ''1332'', name = ''B'', board = ''T'', status = ''pending''\<rparr> \<in> status_domain"
proof -
  have "manifest_reachable (snd (build_manifest
      \<lparr>manifest_csv = None, list_all_csv = None, data_dir = []\<rparr>
      [\<lparr>code = ''1301'', name = ''A'', board = ''T''\<rparr>]))"
    by (rule constructed) simp
  then have m1: "manifest_reachable [\<lparr>code = ''1301'', name = ''A'', board = ''T'', status = ''pending''\<rparr>]"
    by (simp add: build_manifest_def Let_def existing_files_def with_status_def)
  have u: "[0..<max_retries] = [0, 1, 2]"
    by (simp add: max_retries_def upt_rec)
  have d: "snd (jp_download_one always_answers []
      (0, \<lparr>code = ''1301'', name = ''A'', board = ''T'', status = ''pending''\<rparr>)) = Inr (0, ''done'')"
    unfolding jp_download_one_def u
    by (simp add: Let_def jp_try_block_def try_except_def bare_except_def always_answers_def)
  from recorded [OF m1 d]
  have m2: "manifest_reachable [\<lparr>code = ''1301'', name = ''A'', board = ''T'', status = ''done''\<rparr>]"
    by (simp add: set_status_def)
  have f: "manifest_csv \<lparr>manifest_csv = Some [\<lparr>code = ''1301'', name = ''A'', board = ''T'', status = ''done''\<rparr>],
      list_all_csv = None, data_dir = []\<rparr>
        = Some [\<lparr>code = ''1301'', name = ''A'', board = ''T'', status = ''done''\<rparr>]"
    by simp
  from merged [OF m2 f,
      of "[\<lparr>code = ''1301'', name = ''A'', board = ''T''\<rparr>, \<lparr>code = ''1332'', name = ''B'', board = ''T''\<rparr>]"]
  have m3: "manifest_reachable
     [\<lparr>code = ''1301'', name = ''A'', board = ''T'', status = ''done''\<rparr>,
      \<lparr>code = ''1332'', name = ''B'', board = ''T'', status = ''pending''\<rparr>]"
    by (simp add: build_manifest_def merge_new_codes_def new_codes_def with_status_def)
  from m3 status_domain_invariant [OF m3] show ?thesis by simp
qed

end
